theory Spec2Isabelle
  imports Complex_Main
begin

section \<open>Vectors and fields\<close>

text \<open>
  The programs compute on 32-bit floats; the embedding computes on the reals, and a float
  operation whose result is not a finite number (a division by zero) is written out as the
  value \<open>None\<close>. Vectors are tuples of components, as \<open>tm.vec2\<close> and \<open>tm.vec3\<close> are.
\<close>

type_synonym vec2 = "real \<times> real"
type_synonym vec3 = "real \<times> real \<times> real"

text \<open>
  A two-dimensional \<open>ti.Vector.field(3, ...)\<close>: its shape (\<open>None\<close> for a field created
  with \<open>shape=None\<close>, which has no cells to index) and the value of every cell.
\<close>

record field =
  shape :: "(int \<times> int) option"
  cells :: "int \<times> int \<Rightarrow> vec3"

definition in_shape :: "int \<times> int \<Rightarrow> int \<times> int \<Rightarrow> bool" where
  "in_shape wh p = (0 \<le> fst p \<and> fst p < fst wh \<and> 0 \<le> snd p \<and> snd p < snd wh)"

text \<open>The indices \<open>ti.grouped\<close> runs over: every cell of a field of the given shape.\<close>

definition grouped :: "int \<times> int \<Rightarrow> (int \<times> int) list" where
  "grouped wh = List.product [0 .. fst wh - 1] [0 .. snd wh - 1]"

text \<open>Reading a cell: there is a value only inside the shape of a placed field.\<close>

definition field_read :: "field \<Rightarrow> int \<times> int \<Rightarrow> vec3 option" where
  "field_read f p =
     (case shape f of
        None \<Rightarrow> None
      | Some wh \<Rightarrow> if in_shape wh p then Some (cells f p) else None)"

definition field_write :: "field \<Rightarrow> int \<times> int \<Rightarrow> vec3 \<Rightarrow> field" where
  "field_write f p v = f\<lparr>cells := (cells f)(p := v)\<rparr>"

text \<open>
  \<open>ti.Vector.field(3, dtype=ti.f32, shape=...)\<close>. The allocator belongs to the taichi
  library, not to the repository: which shapes it accepts is the parameter \<open>ok\<close>. A
  field created with \<open>shape=None\<close> is created unplaced.
\<close>

definition vector_field :: "(int \<times> int \<Rightarrow> bool) \<Rightarrow> (int \<times> int) option \<Rightarrow> field option" where
  "vector_field ok shp =
     (case shp of
        None \<Rightarrow> Some \<lparr>shape = None, cells = (\<lambda>_. (0, 0, 0))\<rparr>
      | Some wh \<Rightarrow>
          if ok wh then Some \<lparr>shape = Some wh, cells = (\<lambda>_. (0, 0, 0))\<rparr> else None)"

text \<open>The allocator of taichi: it rejects a shape with a dimension that is not positive.\<close>

definition positive_shape :: "int \<times> int \<Rightarrow> bool" where
  "positive_shape wh = (0 < fst wh \<and> 0 < snd wh)"

section \<open>gui.py: BaseShader\<close>

record shader =
  title :: string
  res :: "int \<times> int"
  resf :: vec2
  pixels :: field
  gamma :: real

text \<open>\<open>BaseShader.__init__\<close>: no check of its own; it fails only where the allocation does.\<close>

definition BaseShader_init ::
  "(int \<times> int \<Rightarrow> bool) \<Rightarrow> string \<Rightarrow> (int \<times> int) option \<Rightarrow> real \<Rightarrow> shader option" where
  "BaseShader_init ok ttl rs g =
     (let r = (case rs of None \<Rightarrow> (1000, 563) | Some r' \<Rightarrow> r') in
      case vector_field ok (Some r) of
        None \<Rightarrow> None
      | Some px \<Rightarrow>
          Some \<lparr>title = ttl, res = r, resf = (real_of_int (fst r), real_of_int (snd r)),
                pixels = px, gamma = g\<rparr>)"

text \<open>\<open>BaseShader.main_image\<close>, the shade function a scene overrides.\<close>

definition main_image :: "vec2 \<Rightarrow> real \<Rightarrow> vec3" where
  "main_image uv t = (fst uv + 0.5, snd uv + 0.5, 0)"

text \<open>\<open>uv = (fragCoord - 0.5 * self.resf) / self.resf.y\<close>\<close>

definition frag_uv :: "vec2 \<Rightarrow> int \<times> int \<Rightarrow> vec2" where
  "frag_uv rf fc =
     ((real_of_int (fst fc) - 0.5 * fst rf) / snd rf,
      (real_of_int (snd fc) - 0.5 * snd rf) / snd rf)"

definition clamp :: "real \<Rightarrow> real \<Rightarrow> real \<Rightarrow> real" where
  "clamp x lo hi = min (max x lo) hi"

text \<open>
  The power \<open>col ** e\<close> on one channel. A negative channel has a power only for an
  integer exponent; otherwise the float result is NaN, written \<open>None\<close>.
\<close>

definition pow_channel :: "real \<Rightarrow> real \<Rightarrow> real option" where
  "pow_channel c e =
     (if 0 \<le> c then Some (c powr e)
      else if real_of_int \<lfloor>e\<rfloor> = e then
        Some (if even \<lfloor>e\<rfloor> then \<bar>c\<bar> powr e else - (\<bar>c\<bar> powr e))
      else None)"

text \<open>\<open>tm.clamp(col ** e, 0., 1.)\<close> on one channel: a NaN is clamped to the lower bound.\<close>

definition gamma_channel :: "real \<Rightarrow> real \<Rightarrow> real" where
  "gamma_channel e c = (case pow_channel c e of None \<Rightarrow> 0 | Some v \<Rightarrow> clamp v 0 1)"

text \<open>
  The gamma step of \<open>render\<close> for a gamma other than zero:
  \<open>if self.gamma > 0.0: col = tm.clamp(col ** (1 / self.gamma), 0., 1.)\<close>.
\<close>

definition gamma_post :: "real \<Rightarrow> vec3 \<Rightarrow> vec3" where
  "gamma_post g col =
     (if g > 0 then
        (case col of (r, gr, b) \<Rightarrow>
           (gamma_channel (1 / g) r, gamma_channel (1 / g) gr, gamma_channel (1 / g) b))
      else col)"

text \<open>The body of the loop of \<open>render\<close> for one pixel.\<close>

definition shade_pixel :: "(vec2 \<Rightarrow> real \<Rightarrow> vec3) \<Rightarrow> vec2 \<Rightarrow> real \<Rightarrow> real \<Rightarrow> int \<times> int \<Rightarrow> vec3" where
  "shade_pixel mi rf g t fc = gamma_post g (mi (frag_uv rf fc) t)"

text \<open>
  \<open>render\<close>. The exponent \<open>1 / self.gamma\<close> is computed from the Python value of the gamma
  when the kernel is built, before the loop runs and whatever the test
  \<open>self.gamma > 0.0\<close> gives: with a gamma of zero it raises ZeroDivisionError, and the
  render has no result. Otherwise the loop writes every pixel of the field.
\<close>

definition render :: "(vec2 \<Rightarrow> real \<Rightarrow> vec3) \<Rightarrow> real \<Rightarrow> ('a shader_scheme) \<Rightarrow> ('a shader_scheme) option" where
  "render mi t s =
     (case shape (pixels s) of
        None \<Rightarrow> None
      | Some wh \<Rightarrow>
          if gamma s = 0 then None
          else
            Some (s\<lparr>pixels :=
              fold (\<lambda>fc px. field_write px fc (shade_pixel mi (resf s) (gamma s) t fc))
                (grouped wh) (pixels s)\<rparr>))"

section \<open>gui.py: TwoPassShader\<close>

record two_pass_shader = shader +
  buffer :: field

text \<open>
  \<open>TwoPassShader.__init__\<close>: the base constructor, then
  \<open>self.buffer = ti.Vector.field(3, dtype=ti.f32, shape=res)\<close> with the argument \<open>res\<close>
  as it was passed.
\<close>

definition TwoPassShader_init ::
  "(int \<times> int \<Rightarrow> bool) \<Rightarrow> string \<Rightarrow> (int \<times> int) option \<Rightarrow> real \<Rightarrow> two_pass_shader option" where
  "TwoPassShader_init ok ttl rs g =
     (case BaseShader_init ok ttl rs g of
        None \<Rightarrow> None
      | Some b \<Rightarrow>
          (case vector_field ok rs of
             None \<Rightarrow> None
           | Some bf \<Rightarrow>
               Some \<lparr>title = title b, res = res b, resf = resf b, pixels = pixels b,
                     gamma = gamma b, buffer = bf\<rparr>))"

text \<open>\<open>fragCoord // 16 * 16\<close>, componentwise (floor division).\<close>

definition snap16 :: "int \<times> int \<Rightarrow> int \<times> int" where
  "snap16 fc = (fst fc div 16 * 16, snd fc div 16 * 16)"

text \<open>
  The loop of \<open>render_pass2\<close>: each pixel takes the buffer's value at the snapped
  coordinate; a read outside the buffer has no value.
\<close>

fun pass2_loop :: "field \<Rightarrow> (int \<times> int) list \<Rightarrow> field \<Rightarrow> field option" where
  "pass2_loop buf [] px = Some px"
| "pass2_loop buf (fc # fcs) px =
     (case field_read buf (snap16 fc) of
        None \<Rightarrow> None
      | Some col \<Rightarrow> pass2_loop buf fcs (field_write px fc col))"

definition render_pass2 :: "real \<Rightarrow> two_pass_shader \<Rightarrow> two_pass_shader option" where
  "render_pass2 t s =
     (case shape (pixels s) of
        None \<Rightarrow> None
      | Some wh \<Rightarrow>
          (case pass2_loop (buffer s) (grouped wh) (pixels s) of
             None \<Rightarrow> None
           | Some px \<Rightarrow> Some (s\<lparr>pixels := px\<rparr>)))"

section \<open>taskB_Gubanova.py: configuration\<close>

text \<open>\<open>int(...)\<close> of a float: truncation towards zero.\<close>

definition trunc_int :: "real \<Rightarrow> int" where
  "trunc_int x = (if 0 \<le> x then \<lfloor>x\<rfloor> else \<lceil>x\<rceil>)"

definition aspect_ratio :: real where "aspect_ratio = 1 / 1"
definition res_x :: int where "res_x = 1280"
definition res_y :: int where "res_y = trunc_int (real_of_int res_x / aspect_ratio)"

definition NUM_FIREFLIES :: nat where "NUM_FIREFLIES = 50"
definition FIREFLY_RADIUS :: real where "FIREFLY_RADIUS = 0.008"
definition PULSE_SPEED :: real where "PULSE_SPEED = 5.0"
definition MAX_PULSE_FACTOR :: real where "MAX_PULSE_FACTOR = 1.5"
definition MIN_PULSE_FACTOR :: real where "MIN_PULSE_FACTOR = 0.5"
definition FIREFLY_SPEED :: real where "FIREFLY_SPEED = 0.05"
definition ATTRACTION_RADIUS :: real where "ATTRACTION_RADIUS = 0.2"
definition ATTRACTION_STRENGTH :: real where "ATTRACTION_STRENGTH = 0.0005"
definition TRAIL_FADE_SPEED :: real where "TRAIL_FADE_SPEED = 0.95"

definition MAX_FIREFLY_PIXEL_RADIUS :: int where
  "MAX_FIREFLY_PIXEL_RADIUS =
     trunc_int (FIREFLY_RADIUS * MAX_PULSE_FACTOR * real_of_int res_x * 1.5) + 2"

section \<open>taskB_Gubanova.py: vector helpers\<close>

definition vadd2 :: "vec2 \<Rightarrow> vec2 \<Rightarrow> vec2" where
  "vadd2 a b = (fst a + fst b, snd a + snd b)"

definition vsub2 :: "vec2 \<Rightarrow> vec2 \<Rightarrow> vec2" where
  "vsub2 a b = (fst a - fst b, snd a - snd b)"

definition vscale2 :: "real \<Rightarrow> vec2 \<Rightarrow> vec2" where
  "vscale2 k a = (k * fst a, k * snd a)"

definition vadd3 :: "vec3 \<Rightarrow> vec3 \<Rightarrow> vec3" where
  "vadd3 a b = (case a of (a1, a2, a3) \<Rightarrow> case b of (b1, b2, b3) \<Rightarrow> (a1 + b1, a2 + b2, a3 + b3))"

definition vscale3 :: "real \<Rightarrow> vec3 \<Rightarrow> vec3" where
  "vscale3 k a = (case a of (a1, a2, a3) \<Rightarrow> (k * a1, k * a2, k * a3))"

text \<open>\<open>tm.length\<close>\<close>

definition vlength :: "vec2 \<Rightarrow> real" where
  "vlength v = sqrt (fst v * fst v + snd v * snd v)"

text \<open>
  \<open>tm.normalize(v)\<close> computes \<open>(1 / length(v)) * v\<close>. For the zero vector the division is
  by zero and both components of the float result are NaN: there is no finite result.
  (On floats the same happens for a vector so short that its squared length underflows
  to zero; over the reals only the zero vector has length zero.)
\<close>

definition normalize :: "vec2 \<Rightarrow> vec2 option" where
  "normalize v = (if vlength v = 0 then None else Some (vscale2 (1 / vlength v) v))"

definition sdf_circle :: "vec2 \<Rightarrow> vec2 \<Rightarrow> real \<Rightarrow> real" where
  "sdf_circle p center radius = vlength (vsub2 p center) - radius"

definition smoothstep :: "real \<Rightarrow> real \<Rightarrow> real \<Rightarrow> real" where
  "smoothstep edge0 edge1 x =
     (let t = clamp ((x - edge0) / (edge1 - edge0)) 0 1 in t * t * (3 - 2 * t))"

definition smootherstep :: "real \<Rightarrow> real \<Rightarrow> real \<Rightarrow> real" where
  "smootherstep edge0 edge1 x =
     (let t = clamp ((x - edge0) / (edge1 - edge0)) 0 1 in t * t * t * (t * (t * 6 - 15) + 10))"

text \<open>\<open>mix_colors\<close>, on scalars and on colours.\<close>

definition mix_colors :: "real \<Rightarrow> real \<Rightarrow> real \<Rightarrow> real" where
  "mix_colors color1 color2 alpha = color1 * (1 - alpha) + color2 * alpha"

definition mix_colors3 :: "vec3 \<Rightarrow> vec3 \<Rightarrow> real \<Rightarrow> vec3" where
  "mix_colors3 color1 color2 alpha = vadd3 (vscale3 (1 - alpha) color1) (vscale3 alpha color2)"

section \<open>taskB_Gubanova.py: update_fireflies\<close>

text \<open>
  The particle state: the four fields of shape \<open>NUM_FIREFLIES\<close>. The state holds finite
  numbers; a step that would write a non-finite float into it has the result \<open>None\<close>.
\<close>

record fireflies =
  firefly_pos :: "vec2 list"
  firefly_vel :: "vec2 list"
  firefly_color :: "vec3 list"
  firefly_offset :: "real list"

definition wf_fireflies :: "fireflies \<Rightarrow> bool" where
  "wf_fireflies s =
     (length (firefly_pos s) = NUM_FIREFLIES \<and> length (firefly_vel s) = NUM_FIREFLIES \<and>
      length (firefly_color s) = NUM_FIREFLIES \<and> length (firefly_offset s) = NUM_FIREFLIES)"

text \<open>
  The body of the inner loop for one pair \<open>i \<noteq> j\<close> (lines 112 to 122): the force
  accumulated so far, and what the pair adds to it.
\<close>

definition force_body :: "vec2 \<Rightarrow> vec2 \<Rightarrow> vec2 \<Rightarrow> vec2 option" where
  "force_body current_pos other_pos attraction_force =
     (let dist_vec = vsub2 other_pos current_pos;
          dist = vlength dist_vec
      in if dist < ATTRACTION_RADIUS \<and> dist > 0.00001 then
           (let force_magnitude = smootherstep 0 ATTRACTION_RADIUS dist * ATTRACTION_STRENGTH;
                force_magnitude' =
                  (if dist < FIREFLY_RADIUS * 2 then - ATTRACTION_STRENGTH * 2 / dist
                   else force_magnitude)
            in case normalize dist_vec of
                 None \<Rightarrow> None
               | Some n \<Rightarrow> Some (vadd2 attraction_force (vscale2 force_magnitude' n)))
         else Some attraction_force)"

fun attraction_loop :: "vec2 list \<Rightarrow> nat \<Rightarrow> nat list \<Rightarrow> vec2 \<Rightarrow> vec2 option" where
  "attraction_loop ps i [] acc = Some acc"
| "attraction_loop ps i (j # js) acc =
     (if i \<noteq> j then
        (case force_body (ps ! i) (ps ! j) acc of
           None \<Rightarrow> None
         | Some acc' \<Rightarrow> attraction_loop ps i js acc')
      else attraction_loop ps i js acc)"

text \<open>The four branches of the boundary test on one axis: new position and new velocity.\<close>

definition reflect :: "real \<Rightarrow> real \<Rightarrow> real \<times> real" where
  "reflect p v = (if p < 0 then (0, v * - 1) else if p > 1 then (1, v * - 1) else (p, v))"

text \<open>
  The velocity after force, perturbation and renormalization (lines 124 to 127). The two
  random numbers of the iteration, each in \<open>[0, 1)\<close>, are the argument \<open>r\<close>.
\<close>

definition new_velocity :: "vec2 \<Rightarrow> vec2 \<Rightarrow> real \<times> real \<Rightarrow> vec2 option" where
  "new_velocity vel attraction_force r =
     (let v1 = vadd2 vel attraction_force;
          random_dir_change = vscale2 0.005 (vsub2 (vscale2 2 r) (1, 1));
          v2 = vadd2 v1 random_dir_change
      in case normalize v2 of
           None \<Rightarrow> None
         | Some n \<Rightarrow> Some (vscale2 FIREFLY_SPEED n))"

text \<open>One iteration of the outer loop, for particle \<open>i\<close>.\<close>

definition update_firefly :: "(nat \<Rightarrow> real \<times> real) \<Rightarrow> fireflies \<Rightarrow> nat \<Rightarrow> fireflies option" where
  "update_firefly rnd s i =
     (case attraction_loop (firefly_pos s) i [0 ..< NUM_FIREFLIES] (0, 0) of
        None \<Rightarrow> None
      | Some attraction_force \<Rightarrow>
          (case new_velocity (firefly_vel s ! i) attraction_force (rnd i) of
             None \<Rightarrow> None
           | Some vel \<Rightarrow>
               (let pos = vadd2 (firefly_pos s ! i) vel;
                    (px, vx) = reflect (fst pos) (fst vel);
                    (py, vy) = reflect (snd pos) (snd vel)
                in Some (s\<lparr>firefly_pos := (firefly_pos s)[i := (px, py)],
                           firefly_vel := (firefly_vel s)[i := (vx, vy)]\<rparr>))))"

text \<open>
  The kernel. Taichi may run the iterations of the outer loop in parallel; the embedding
  runs them one after the other in index order, each reading the positions the earlier
  ones wrote. \<open>rnd i\<close> is the pair of random numbers drawn for particle \<open>i\<close>, and the
  time \<open>t\<close> is not used by the body.
\<close>

fun update_loop :: "(nat \<Rightarrow> real \<times> real) \<Rightarrow> nat list \<Rightarrow> fireflies \<Rightarrow> fireflies option" where
  "update_loop rnd [] s = Some s"
| "update_loop rnd (i # is) s =
     (case update_firefly rnd s i of
        None \<Rightarrow> None
      | Some s' \<Rightarrow> update_loop rnd is s')"

definition update_fireflies :: "(nat \<Rightarrow> real \<times> real) \<Rightarrow> real \<Rightarrow> fireflies \<Rightarrow> fireflies option" where
  "update_fireflies rnd t s = update_loop rnd [0 ..< NUM_FIREFLIES] s"

section \<open>taskB_Gubanova.py: render\<close>

text \<open>The first loop: \<open>pixels[i, j] *= TRAIL_FADE_SPEED\<close> for every pixel.\<close>

definition decay :: "field \<Rightarrow> field" where
  "decay f =
     fold (\<lambda>p g. field_write g p (vscale3 TRAIL_FADE_SPEED (cells g p))) (grouped (res_x, res_y)) f"

definition pulse_factor :: "real \<Rightarrow> real \<Rightarrow> real" where
  "pulse_factor t off = sin (t * PULSE_SPEED + off) * 0.5 + 0.5"

definition current_radius :: "real \<Rightarrow> real \<Rightarrow> real" where
  "current_radius t off =
     FIREFLY_RADIUS * mix_colors MIN_PULSE_FACTOR MAX_PULSE_FACTOR (pulse_factor t off)"

text \<open>
  The pixel one offset of the bounding box addresses (lines 159 to 165), and the point that
  pixel stands for (line 168).
\<close>

definition splat_pixel :: "vec2 \<Rightarrow> int \<times> int \<Rightarrow> int \<times> int" where
  "splat_pixel ff_pos offs =
     (let pixel_x = trunc_int (fst ff_pos * real_of_int res_x);
          pixel_y = trunc_int (snd ff_pos * real_of_int res_y)
      in (pixel_x + fst offs, pixel_y + snd offs))"

definition pixel_uv :: "int \<times> int \<Rightarrow> vec2" where
  "pixel_uv q = (real_of_int (fst q) / real_of_int res_x, real_of_int (snd q) / real_of_int res_y)"

text \<open>
  The body of the innermost loop (lines 164 to 173) for one particle and one offset: the
  pixel it adds to and the colour it adds, if it adds anything.
\<close>

definition splat_amount :: "real \<Rightarrow> vec2 \<Rightarrow> vec3 \<Rightarrow> real \<Rightarrow> int \<times> int \<Rightarrow> ((int \<times> int) \<times> vec3) option" where
  "splat_amount t ff_pos ff_color off offs =
     (let q = splat_pixel ff_pos offs
      in if in_shape (res_x, res_y) q then
           (let p = pixel_uv q;
                dist = sdf_circle p ff_pos (current_radius t off)
            in if dist < current_radius t off * 1.0 then
                 (let alpha_smooth = 1 - smoothstep 0 (current_radius t off * 0.5) dist;
                      pulsing_color = mix_colors3 ff_color (1, 1, 1) (pulse_factor t off * 0.7)
                  in Some (q, vscale3 0.5 (vscale3 alpha_smooth pulsing_color)))
               else None)
         else None)"

definition splat_body :: "real \<Rightarrow> vec2 \<Rightarrow> vec3 \<Rightarrow> real \<Rightarrow> int \<times> int \<Rightarrow> field \<Rightarrow> field" where
  "splat_body t ff_pos ff_color off offs f =
     (case splat_amount t ff_pos ff_color off offs of
        None \<Rightarrow> f
      | Some (q, a) \<Rightarrow> field_write f q (vadd3 (cells f q) a))"

text \<open>The two offset loops of one particle, and the loop over the particles.\<close>

definition offsets :: "int list" where
  "offsets = [- MAX_FIREFLY_PIXEL_RADIUS .. MAX_FIREFLY_PIXEL_RADIUS]"

definition splat_firefly :: "real \<Rightarrow> vec2 \<Rightarrow> vec3 \<Rightarrow> real \<Rightarrow> field \<Rightarrow> field" where
  "splat_firefly t ff_pos ff_color off f =
     fold (\<lambda>x_offset g.
        fold (\<lambda>y_offset h. splat_body t ff_pos ff_color off (x_offset, y_offset) h) offsets g)
       offsets f"

definition splat_all :: "real \<Rightarrow> fireflies \<Rightarrow> field \<Rightarrow> field" where
  "splat_all t s f =
     fold (\<lambda>i_ff g.
        splat_firefly t (firefly_pos s ! i_ff) (firefly_color s ! i_ff) (firefly_offset s ! i_ff) g)
       [0 ..< NUM_FIREFLIES] f"

text \<open>\<open>render(t)\<close> of the fireflies scene: the decay loop, then the splat loop.\<close>

definition render_fireflies :: "real \<Rightarrow> fireflies \<Rightarrow> field \<Rightarrow> field" where
  "render_fireflies t s f = splat_all t s (decay f)"

section \<open>Properties stated of the model, and example inputs\<close>

text \<open>The simulation domain \<open>[0,1] \<times> [0,1]\<close>.\<close>

definition in_domain :: "vec2 \<Rightarrow> bool" where
  "in_domain p = (0 \<le> fst p \<and> fst p \<le> 1 \<and> 0 \<le> snd p \<and> snd p \<le> 1)"

text \<open>
  A population of fifty in which particle 0 is at rest at the centre of the domain and
  all others are 0.4 away from it; the random numbers drawn are 0.5, which makes the
  perturbation zero.
\<close>

definition failing_state :: fireflies where
  "failing_state =
     \<lparr>firefly_pos = (0.5, 0.5) # replicate 49 (0.5, 0.9),
      firefly_vel = (0, 0) # replicate 49 (0, 0.05),
      firefly_color = replicate 50 (1, 1, 1),
      firefly_offset = replicate 50 0\<rparr>"

definition failing_rnd :: "nat \<Rightarrow> real \<times> real" where
  "failing_rnd i = (0.5, 0.5)"

text \<open>Fifty white particles at the centre of the domain, and an all-white frame buffer.\<close>

definition demo_fireflies :: fireflies where
  "demo_fireflies =
     \<lparr>firefly_pos = replicate 50 (0.5, 0.5),
      firefly_vel = replicate 50 (0.05, 0),
      firefly_color = replicate 50 (1, 1, 1),
      firefly_offset = replicate 50 0\<rparr>"

definition demo_pixels :: field where
  "demo_pixels = \<lparr>shape = Some (res_x, res_y), cells = (\<lambda>_. (1, 1, 1))\<rparr>"

text \<open>A base shader of the default resolution, and a small two-pass shader.\<close>

definition default_shader :: "real \<Rightarrow> shader" where
  "default_shader g =
     \<lparr>title = ''Base shader'', res = (1000, 563), resf = (1000, 563),
      pixels = \<lparr>shape = Some (1000, 563), cells = (\<lambda>_. (0, 0, 0))\<rparr>,
      gamma = g\<rparr>"

definition demo_two_pass :: two_pass_shader where
  "demo_two_pass =
     \<lparr>title = ''demo'', res = (32, 32), resf = (32, 32),
      pixels = \<lparr>shape = Some (32, 32), cells = (\<lambda>_. (0, 0, 0))\<rparr>,
      gamma = 2.2,
      buffer = \<lparr>shape = Some (32, 32),
                cells = (\<lambda>p. (real_of_int (fst p), real_of_int (snd p), 0))\<rparr>\<rparr>"

section \<open>Fields and loops over them\<close>

lemma set_grouped: "set (grouped wh) = {p. in_shape wh p}"
  by (auto simp: grouped_def in_shape_def)

lemma distinct_grouped: "distinct (grouped wh)"
  by (simp add: grouped_def distinct_product)

lemma fold_write_cells:
  "cells (fold (\<lambda>fc px. field_write px fc (g fc)) ps f) p =
     (if p \<in> set ps then g p else cells f p)"
  by (induction ps arbitrary: f) (auto simp: field_write_def)

lemma fold_write_shape:
  "shape (fold (\<lambda>fc px. field_write px fc (g fc)) ps f) = shape f"
  by (induction ps arbitrary: f) (auto simp: field_write_def)

lemma fold_modify_cells:
  "distinct ps \<Longrightarrow>
     cells (fold (\<lambda>p g. field_write g p (h (cells g p))) ps f) q =
       (if q \<in> set ps then h (cells f q) else cells f q)"
  by (induction ps arbitrary: f) (auto simp: field_write_def)

section \<open>The block resolve of the two-pass shader\<close>

lemma pass2_loop_Some:
  "pass2_loop buf ps px = Some px' \<Longrightarrow>
     shape px' = shape px \<and>
     cells px' = (\<lambda>p. if p \<in> set ps then cells buf (snap16 p) else cells px p)"
proof (induction ps arbitrary: px)
  case Nil
  then show ?case by simp
next
  case (Cons fc fcs)
  from Cons.prems obtain col where r: "field_read buf (snap16 fc) = Some col"
    and l: "pass2_loop buf fcs (field_write px fc col) = Some px'"
    by (auto split: option.splits)
  from r have c: "col = cells buf (snap16 fc)"
    by (auto simp: field_read_def split: option.splits if_splits)
  from Cons.IH[OF l] show ?case
    by (auto simp: field_write_def c fun_eq_iff)
qed

lemma pass2_loop_total:
  "(\<And>p. p \<in> set ps \<Longrightarrow> field_read buf (snap16 p) \<noteq> None) \<Longrightarrow>
     \<exists>px'. pass2_loop buf ps px = Some px'"
  by (induction ps arbitrary: px) (auto split: option.splits)

lemma snap16_bounds: "0 \<le> (x::int) \<Longrightarrow> 0 \<le> x div 16 * 16 \<and> x div 16 * 16 \<le> x"
  by presburger

lemma snap16_in_shape:
  "in_shape wh p \<Longrightarrow> fst wh \<le> fst bwh \<Longrightarrow> snd wh \<le> snd bwh \<Longrightarrow> in_shape bwh (snap16 p)"
  using snap16_bounds[of "fst p"] snap16_bounds[of "snd p"]
  unfolding in_shape_def snap16_def by auto

text \<open>
  Claim C7. The resolve pass gives every output pixel the value the intermediate buffer
  holds at the coordinate snapped down to a multiple of the block size 16, whatever the
  resolution of the output buffer is (as long as the intermediate buffer covers it); and
  resolving again with the intermediate buffer unchanged yields the very same shader
  state, so the resolve is idempotent.
\<close>

theorem resolve_idempotent:
  assumes px: "shape (pixels s) = Some wh"
    and bf: "shape (buffer s) = Some bwh"
    and le: "fst wh \<le> fst bwh" "snd wh \<le> snd bwh"
  shows "\<exists>s'. render_pass2 t s = Some s' \<and>
           buffer s' = buffer s \<and>
           (\<forall>x y. in_shape wh (x, y) \<longrightarrow>
              cells (pixels s') (x, y) = cells (buffer s) (x div 16 * 16, y div 16 * 16)) \<and>
           render_pass2 t' s' = Some s'"
proof -
  have rd: "field_read (buffer s) (snap16 p) \<noteq> None" if "p \<in> set (grouped wh)" for p
    using that snap16_in_shape[OF _ le, of p] bf by (simp add: set_grouped field_read_def)
  from pass2_loop_total[of "grouped wh" "buffer s" "pixels s"] rd
  obtain px' where l: "pass2_loop (buffer s) (grouped wh) (pixels s) = Some px'" by blast
  note r = pass2_loop_Some[OF l]
  let ?s' = "s\<lparr>pixels := px'\<rparr>"
  have 1: "render_pass2 t s = Some ?s'" by (simp add: render_pass2_def px l)
  from pass2_loop_total[of "grouped wh" "buffer s" px'] rd
  obtain px'' where l2: "pass2_loop (buffer s) (grouped wh) px' = Some px''" by blast
  note r2 = pass2_loop_Some[OF l2]
  have "cells px'' = cells px'" using r r2 by (auto simp: fun_eq_iff)
  moreover have "shape px'' = shape px'" using r2 by simp
  ultimately have "px'' = px'" by simp
  then have 2: "render_pass2 t' ?s' = Some ?s'"
    using r l2 px by (simp add: render_pass2_def)
  have 3: "\<forall>x y. in_shape wh (x, y) \<longrightarrow>
      cells (pixels ?s') (x, y) = cells (buffer s) (x div 16 * 16, y div 16 * 16)"
    using r by (simp add: set_grouped snap16_def)
  from 1 2 3 show ?thesis by simp
qed

theorem resolve_idempotent_witness:
  "\<exists>s'. render_pass2 0 demo_two_pass = Some s' \<and> render_pass2 1 s' = Some s' \<and>
        cells (pixels s') (17, 5) = (16, 0, 0)"
proof -
  obtain s' where a: "render_pass2 0 demo_two_pass = Some s'"
     and c: "\<forall>x y. in_shape (32, 32) (x, y) \<longrightarrow>
               cells (pixels s') (x, y) = cells (buffer demo_two_pass) (x div 16 * 16, y div 16 * 16)"
     and d: "render_pass2 1 s' = Some s'"
    using resolve_idempotent[of demo_two_pass "(32, 32)" "(32, 32)" 0 1]
    by (auto simp: demo_two_pass_def)
  from c have "cells (pixels s') (17, 5) = cells (buffer demo_two_pass) (17 div 16 * 16, 5 div 16 * 16)"
    by (simp add: in_shape_def)
  then have "cells (pixels s') (17, 5) = (16, 0, 0)"
    by (simp add: demo_two_pass_def)
  with a d show ?thesis by blast
qed

section \<open>The constructors and the pixel coordinate\<close>

lemma BaseShader_init_Some:
  "BaseShader_init ok ttl rs g = Some s \<Longrightarrow>
     s = \<lparr>title = ttl, res = (case rs of None \<Rightarrow> (1000, 563) | Some r \<Rightarrow> r),
          resf = (real_of_int (fst (case rs of None \<Rightarrow> (1000, 563) | Some r \<Rightarrow> r)),
                  real_of_int (snd (case rs of None \<Rightarrow> (1000, 563) | Some r \<Rightarrow> r))),
          pixels = \<lparr>shape = Some (case rs of None \<Rightarrow> (1000, 563) | Some r \<Rightarrow> r),
                    cells = (\<lambda>_. (0, 0, 0))\<rparr>,
          gamma = g\<rparr>"
  by (auto simp: BaseShader_init_def vector_field_def Let_def split: option.splits if_splits)

text \<open>
  Claim C8, as the code has it. For a shader built with a positive resolution
  \<open>(w, h)\<close> and a gamma other than zero, the coordinate \<open>render\<close> passes to the shade
  function for the pixel \<open>(x, y)\<close> is the pixel coordinate minus half the resolution,
  divided by the height \<open>h\<close> on both axes: the vertical axis spans length 1 and the
  origin is the screen centre. This is the division by \<open>min w h\<close> whenever the height is
  not larger than the width. With a gamma of zero the render raises before it shades any
  pixel.
\<close>

theorem render_uv_by_height:
  assumes i: "BaseShader_init ok ttl (Some (w, h)) g = Some s"
    and pos: "0 < w" "0 < h"
    and xy: "0 \<le> x" "x < w" "0 \<le> y" "y < h"
  shows "(g \<noteq> 0 \<longrightarrow>
           (\<exists>s'. render mi t s = Some s' \<and>
              cells (pixels s') (x, y) =
                gamma_post g (mi ((real_of_int x - real_of_int w / 2) / real_of_int h,
                                  (real_of_int y - real_of_int h / 2) / real_of_int h) t))) \<and>
         (g = 0 \<longrightarrow> render mi t s = None) \<and>
         (h \<le> w \<longrightarrow>
            frag_uv (resf s) (x, y) =
              ((real_of_int x - real_of_int w / 2) / real_of_int (min w h),
               (real_of_int y - real_of_int h / 2) / real_of_int (min w h)))"
proof -
  from BaseShader_init_Some[OF i]
  have sh: "shape (pixels s) = Some (w, h)" and rf: "resf s = (real_of_int w, real_of_int h)"
    and gm: "gamma s = g"
    by simp_all
  have m: "(x, y) \<in> set (grouped (w, h))" using xy by (simp add: set_grouped in_shape_def)
  have A: "g \<noteq> 0 \<longrightarrow>
           (\<exists>s'. render mi t s = Some s' \<and>
              cells (pixels s') (x, y) =
                gamma_post g (mi ((real_of_int x - real_of_int w / 2) / real_of_int h,
                                  (real_of_int y - real_of_int h / 2) / real_of_int h) t))"
    using m by (simp add: render_def sh rf gm fold_write_cells shade_pixel_def frag_uv_def)
  have Z: "g = 0 \<longrightarrow> render mi t s = None"
    by (simp add: render_def sh gm)
  have B: "h \<le> w \<longrightarrow>
            frag_uv (resf s) (x, y) =
              ((real_of_int x - real_of_int w / 2) / real_of_int (min w h),
               (real_of_int y - real_of_int h / 2) / real_of_int (min w h))"
    by (simp add: rf frag_uv_def min_def)
  from A Z B show ?thesis by blast
qed

theorem render_uv_by_height_witness:
  "BaseShader_init positive_shape ''Base shader'' (Some (1000, 563)) 2.2 = Some (default_shader 2.2) \<and>
   (\<exists>s'. render main_image 0 (default_shader 2.2) = Some s' \<and>
      cells (pixels s') (0, 0) = gamma_post 2.2 (main_image (- 500 / 563, - 1 / 2) 0))"
proof -
  have i: "BaseShader_init positive_shape ''Base shader'' (Some (1000, 563)) 2.2 = Some (default_shader 2.2)"
    by (simp add: BaseShader_init_def vector_field_def positive_shape_def Let_def default_shader_def)
  from render_uv_by_height[OF i, of 0 0 main_image 0] i show ?thesis by simp
qed

text \<open>
  The coordinate is not divided by the shorter axis when the window is taller than wide:
  at resolution 563 by 1000 the pixel \<open>(0, 0)\<close> gets \<open>(-563/2000, -1/2)\<close>, where the
  division by \<open>min 563 1000\<close> would give \<open>(-1/2, -500/563)\<close>.
\<close>

theorem uv_min_counterexample:
  "frag_uv (563, 1000) (0, 0) = (- 563 / 2000, - 1 / 2) \<and>
   ((real_of_int 0 - real_of_int 563 / 2) / real_of_int (min 563 1000),
    (real_of_int 0 - real_of_int 1000 / 2) / real_of_int (min 563 1000)) = (- 1 / 2, - 500 / 563)"
  by (simp add: frag_uv_def)




lemma TwoPassShader_init_shapes:
  "TwoPassShader_init ok ttl (Some r) g = Some s \<Longrightarrow>
     shape (pixels s) = Some r \<and> shape (buffer s) = Some r"
  by (auto simp: TwoPassShader_init_def BaseShader_init_def vector_field_def Let_def
      split: option.splits if_splits)

text \<open>
  Claim C10 at the default resolution. \<open>TwoPassShader\<close> constructed with \<open>res=None\<close>:
  the pixel buffer has the default shape 1000 by 563, the intermediate buffer is created
  from the argument itself and has no shape at all.
\<close>

theorem buffer_shape_default_res:
  "\<exists>s. TwoPassShader_init positive_shape ''Two pass'' None 2.2 = Some s \<and>
       shape (pixels s) = Some (1000, 563) \<and> shape (buffer s) = None"
  by (simp add: TwoPassShader_init_def BaseShader_init_def vector_field_def positive_shape_def Let_def)

section \<open>The pairwise force\<close>

lemma vlength_nonneg: "0 \<le> vlength v"
  by (simp add: vlength_def)

lemma vlength_x: "vlength (a, 0) = \<bar>a\<bar>"
  by (simp add: vlength_def)

lemma vlength_y: "vlength (0, b) = \<bar>b\<bar>"
  by (simp add: vlength_def)

lemma vlength_scale: "vlength (vscale2 k v) = \<bar>k\<bar> * vlength v"
proof -
  have "(k * fst v) * (k * fst v) + (k * snd v) * (k * snd v) =
        (k * k) * (fst v * fst v + snd v * snd v)"
    by (simp add: algebra_simps)
  then show ?thesis
    by (simp add: vlength_def vscale2_def real_sqrt_mult)
qed

lemma vlength_zero: "vlength w = 0 \<Longrightarrow> w = (0, 0)"
proof -
  assume "vlength w = 0"
  then have "fst w * fst w + snd w * snd w = 0"
    by (simp add: vlength_def)
  then have "fst w = 0 \<and> snd w = 0"
    using sum_squares_eq_zero_iff[of "fst w" "snd w"] by simp
  then show ?thesis by (simp add: prod_eq_iff)
qed

lemma normalize_unit: "normalize v = Some n \<Longrightarrow> vlength n = 1"
  using vlength_nonneg[of v]
  by (auto simp: normalize_def vlength_scale split: if_splits)


text \<open>The pair loop is guarded: a pair never makes the force non-finite.\<close>

lemma force_body_total: "\<exists>a. force_body cur other acc = Some a"
proof (cases "vlength (vsub2 other cur) = 0")
  case True
  then show ?thesis by (simp add: force_body_def Let_def)
next
  case False
  then show ?thesis by (simp add: force_body_def Let_def normalize_def)
qed

lemma attraction_loop_total: "\<exists>a. attraction_loop ps i js acc = Some a"
proof (induction js arbitrary: acc)
  case Nil
  then show ?case by simp
next
  case (Cons j js)
  show ?case
  proof (cases "i = j")
    case True
    then show ?thesis using Cons.IH by simp
  next
    case False
    from force_body_total obtain a where "force_body (ps ! i) (ps ! j) acc = Some a" by blast
    then show ?thesis using False Cons.IH[of a] by simp
  qed
qed



section \<open>Renormalization and the boundary\<close>

lemma reflect_pos: "0 \<le> fst (reflect p v) \<and> fst (reflect p v) \<le> 1"
  by (simp add: reflect_def)

lemma reflect_cases:
  "reflect p v = (if p < 0 then (0, - v) else if 1 < p then (1, - v) else (p, v))"
  by (simp add: reflect_def)

lemma new_velocity_speed: "new_velocity vel f r = Some v \<Longrightarrow> vlength v = FIREFLY_SPEED"
  by (auto simp: new_velocity_def Let_def vlength_scale FIREFLY_SPEED_def
      dest!: normalize_unit split: option.splits)

text \<open>
  Over the reals: whenever an iteration has a result, the particle it updates ends with
  the configured speed and inside the domain, and no other particle is touched.
\<close>

lemma update_firefly_Some:
  assumes "update_firefly rnd s i = Some s'"
    and "i < length (firefly_pos s)" and "i < length (firefly_vel s)"
  shows "vlength (firefly_vel s' ! i) = FIREFLY_SPEED \<and> in_domain (firefly_pos s' ! i) \<and>
         length (firefly_pos s') = length (firefly_pos s) \<and>
         length (firefly_vel s') = length (firefly_vel s) \<and>
         firefly_color s' = firefly_color s \<and> firefly_offset s' = firefly_offset s \<and>
         (\<forall>k. k \<noteq> i \<longrightarrow>
            firefly_pos s' ! k = firefly_pos s ! k \<and> firefly_vel s' ! k = firefly_vel s ! k)"
proof -
  from assms(1) obtain f v where
    v: "new_velocity (firefly_vel s ! i) f (rnd i) = Some v" and
    s': "s' = s\<lparr>firefly_pos := (firefly_pos s)
                   [i := (fst (reflect (fst (vadd2 (firefly_pos s ! i) v)) (fst v)),
                          fst (reflect (snd (vadd2 (firefly_pos s ! i) v)) (snd v)))],
                 firefly_vel := (firefly_vel s)
                   [i := (snd (reflect (fst (vadd2 (firefly_pos s ! i) v)) (fst v)),
                          snd (reflect (snd (vadd2 (firefly_pos s ! i) v)) (snd v)))]\<rparr>"
    by (auto simp: update_firefly_def Let_def split: option.splits prod.splits)
  have "vlength (firefly_vel s' ! i) = vlength v"
    using assms(3) by (simp add: s' reflect_def vlength_def)
  then have 1: "vlength (firefly_vel s' ! i) = FIREFLY_SPEED"
    using new_velocity_speed[OF v] by simp
  have 2: "in_domain (firefly_pos s' ! i)"
    using assms(2) by (simp add: s' in_domain_def reflect_pos)
  show ?thesis using 1 2 by (simp add: s')
qed

lemma update_loop_Some:
  assumes "update_loop rnd js s = Some s'"
    and "\<And>j. j \<in> set js \<Longrightarrow> j < length (firefly_pos s) \<and> j < length (firefly_vel s)"
  shows "length (firefly_pos s') = length (firefly_pos s) \<and>
         length (firefly_vel s') = length (firefly_vel s) \<and>
         firefly_color s' = firefly_color s \<and> firefly_offset s' = firefly_offset s \<and>
         (\<forall>k. k \<in> set js \<longrightarrow>
            vlength (firefly_vel s' ! k) = FIREFLY_SPEED \<and> in_domain (firefly_pos s' ! k)) \<and>
         (\<forall>k. k \<notin> set js \<longrightarrow>
            firefly_pos s' ! k = firefly_pos s ! k \<and> firefly_vel s' ! k = firefly_vel s ! k)"
  using assms
proof (induction js arbitrary: s)
  case Nil
  then show ?case by simp
next
  case (Cons j js)
  from Cons.prems(1) obtain s1 where
    s1: "update_firefly rnd s j = Some s1" and rest: "update_loop rnd js s1 = Some s'"
    by (auto split: option.splits)
  have j: "j < length (firefly_pos s)" "j < length (firefly_vel s)"
    using Cons.prems(2)[of j] by simp_all
  note one = update_firefly_Some[OF s1 j]
  have "\<And>k. k \<in> set js \<Longrightarrow> k < length (firefly_pos s1) \<and> k < length (firefly_vel s1)"
    using Cons.prems(2) one by simp
  note ih = Cons.IH[OF rest this]
  have here: "vlength (firefly_vel s' ! j) = FIREFLY_SPEED \<and> in_domain (firefly_pos s' ! j)"
  proof (cases "j \<in> set js")
    case True
    then show ?thesis using ih by blast
  next
    case False
    then have "firefly_pos s' ! j = firefly_pos s1 ! j" "firefly_vel s' ! j = firefly_vel s1 ! j"
      using ih by blast+
    then show ?thesis using one by simp
  qed
  have other: "\<forall>k. k \<notin> set (j # js) \<longrightarrow>
      firefly_pos s' ! k = firefly_pos s ! k \<and> firefly_vel s' ! k = firefly_vel s ! k"
    using ih one by simp
  have inv: "\<forall>k. k \<in> set (j # js) \<longrightarrow>
      vlength (firefly_vel s' ! k) = FIREFLY_SPEED \<and> in_domain (firefly_pos s' ! k)"
    using ih here by auto
  from ih one other inv show ?case by simp
qed

text \<open>
  Over the reals: a step with a result leaves every particle with the configured speed
  and inside the domain.
\<close>

lemma update_fireflies_Some:
  assumes "wf_fireflies s" and "update_fireflies rnd t s = Some s'"
  shows "wf_fireflies s' \<and>
         (\<forall>i < NUM_FIREFLIES.
            vlength (firefly_vel s' ! i) = FIREFLY_SPEED \<and> in_domain (firefly_pos s' ! i))"
proof -
  have "\<And>j. j \<in> set [0 ..< NUM_FIREFLIES] \<Longrightarrow>
          j < length (firefly_pos s) \<and> j < length (firefly_vel s)"
    using assms(1) by (simp add: wf_fireflies_def)
  from update_loop_Some[OF assms(2)[unfolded update_fireflies_def] this] assms(1)
  show ?thesis by (simp add: wf_fireflies_def)
qed

text \<open>No force acts on particle 0 of the failing population.\<close>

lemma force_body_far:
  "ATTRACTION_RADIUS \<le> vlength (vsub2 other cur) \<Longrightarrow> force_body cur other acc = Some acc"
  by (simp add: force_body_def Let_def)

lemma attraction_loop_far:
  "(\<And>j. j \<in> set js \<Longrightarrow> j \<noteq> i \<Longrightarrow>
       ATTRACTION_RADIUS \<le> vlength (vsub2 (ps ! j) (ps ! i))) \<Longrightarrow>
     attraction_loop ps i js acc = Some acc"
  by (induction js arbitrary: acc) (auto simp: force_body_far)

lemma failing_force:
  "attraction_loop (firefly_pos failing_state) 0 [0 ..< NUM_FIREFLIES] (0, 0) = Some (0, 0)"
proof (rule attraction_loop_far)
  fix j assume "j \<in> set [0 ..< NUM_FIREFLIES]" and "j \<noteq> 0"
  then have "0 < j" "j < 50" by (simp_all add: NUM_FIREFLIES_def)
  then have "firefly_pos failing_state ! j = (0.5, 0.9)"
    by (simp add: failing_state_def nth_Cons')
  then show "ATTRACTION_RADIUS \<le>
      vlength (vsub2 (firefly_pos failing_state ! j) (firefly_pos failing_state ! 0))"
    by (simp add: failing_state_def vsub2_def vlength_y ATTRACTION_RADIUS_def)
qed

lemma new_velocity_None:
  "vadd2 (vadd2 vel f) (vscale2 0.005 (vsub2 (vscale2 2 r) (1, 1))) = (0, 0) \<Longrightarrow>
     new_velocity vel f r = None"
  by (simp add: new_velocity_def Let_def normalize_def vlength_def)

lemma failing_sum:
  "vadd2 (vadd2 (firefly_vel failing_state ! 0) (0, 0))
     (vscale2 0.005 (vsub2 (vscale2 2 (failing_rnd 0)) (1, 1))) = (0, 0)"
  by (simp add: failing_state_def failing_rnd_def vadd2_def vsub2_def vscale2_def)

text \<open>
  Claim C5 on the code. The renormalization has no guard: the velocity has no finite
  value exactly when the previous velocity plus the accumulated force plus the random
  perturbation is the zero vector, as for the velocity \<open>(0.05, 0)\<close>, the force
  \<open>(-0.05, 0)\<close> and the random numbers \<open>(0.5, 0.5)\<close>.
\<close>

theorem new_velocity_zero_vector:
  "(new_velocity vel f r = None) =
     (vadd2 (vadd2 vel f) (vscale2 0.005 (vsub2 (vscale2 2 r) (1, 1))) = (0, 0)) \<and>
   new_velocity (0.05, 0) (- 0.05, 0) (0.5, 0.5) = None"
proof -
  have z: "(vlength w = 0) = (w = (0, 0))" for w
    using vlength_zero[of w] by (auto simp: vlength_def)
  have 1: "(new_velocity vel f r = None) =
     (vadd2 (vadd2 vel f) (vscale2 0.005 (vsub2 (vscale2 2 r) (1, 1))) = (0, 0))"
    by (simp add: new_velocity_def Let_def normalize_def z)
  have 2: "new_velocity (0.05, 0) (- 0.05, 0) (0.5, 0.5) = None"
    by (simp add: new_velocity_def Let_def vadd2_def vsub2_def vscale2_def normalize_def vlength_def)
  from 1 2 show ?thesis by blast
qed

text \<open>
  Claim C2 on the code. Whenever the velocity of a particle, the force accumulated on it
  and its perturbation sum to the zero vector, line 127 renormalizes the zero vector:
  the division is by zero and the iteration has no finite velocity to write, so the speed
  of the particle after the step is not the configured one. In the failing population
  this is particle 0: no force acts on it, its velocity and its perturbation are zero.
\<close>

theorem renormalize_fails_speed:
  assumes "attraction_loop (firefly_pos s) i [0 ..< NUM_FIREFLIES] (0, 0) = Some f"
    and "vadd2 (vadd2 (firefly_vel s ! i) f)
           (vscale2 0.005 (vsub2 (vscale2 2 (rnd i)) (1, 1))) = (0, 0)"
  shows "update_firefly rnd s i = None"
  using assms by (simp add: update_firefly_def new_velocity_None)

theorem renormalize_fails_speed_witness:
  "firefly_vel failing_state ! 0 = (0, 0) \<and>
   attraction_loop (firefly_pos failing_state) 0 [0 ..< NUM_FIREFLIES] (0, 0) = Some (0, 0) \<and>
   update_firefly failing_rnd failing_state 0 = None"
proof -
  have v: "firefly_vel failing_state ! 0 = (0, 0)" by (simp add: failing_state_def)
  from renormalize_fails_speed[of failing_state 0 "(0, 0)" failing_rnd, OF failing_force failing_sum]
  have "update_firefly failing_rnd failing_state 0 = None" .
  with v failing_force show ?thesis by simp
qed

text \<open>
  Claim C3 on the code. Whenever velocity, force and perturbation of particle 0, the
  first the kernel updates, sum to the zero vector, the step has no finite result: the
  non-finite velocity is added to the position, which neither boundary test then
  catches, so the position does not stay in the domain. In the failing population every
  position lies in the domain before the step.
\<close>

theorem step_fails_in_domain:
  assumes "attraction_loop (firefly_pos s) 0 [0 ..< NUM_FIREFLIES] (0, 0) = Some f"
    and "vadd2 (vadd2 (firefly_vel s ! 0) f)
           (vscale2 0.005 (vsub2 (vscale2 2 (rnd 0)) (1, 1))) = (0, 0)"
  shows "update_fireflies rnd t s = None"
proof -
  have "[0 ..< NUM_FIREFLIES] = 0 # [Suc 0 ..< NUM_FIREFLIES]"
    by (rule upt_conv_Cons) (simp add: NUM_FIREFLIES_def)
  then have "update_fireflies rnd t s =
      (case update_firefly rnd s 0 of None \<Rightarrow> None
       | Some s' \<Rightarrow> update_loop rnd [Suc 0 ..< NUM_FIREFLIES] s')"
    by (simp add: update_fireflies_def)
  moreover have "update_firefly rnd s 0 = None"
    using assms by (simp add: update_firefly_def new_velocity_None)
  ultimately show ?thesis by simp
qed

theorem step_fails_in_domain_witness:
  "wf_fireflies failing_state \<and> list_all in_domain (firefly_pos failing_state) \<and>
   update_fireflies failing_rnd 0 failing_state = None"
proof -
  from step_fails_in_domain[of failing_state "(0, 0)" failing_rnd 0, OF failing_force failing_sum]
  have "update_fireflies failing_rnd 0 failing_state = None" .
  moreover have "wf_fireflies failing_state"
    by (simp add: wf_fireflies_def failing_state_def NUM_FIREFLIES_def)
  moreover have "list_all in_domain (firefly_pos failing_state)"
    by (simp add: failing_state_def in_domain_def list_all_iff)
  ultimately show ?thesis by simp
qed

section \<open>The splat compositor\<close>

lemma res_y_eq: "res_y = 1280"
  by (simp add: res_y_def res_x_def aspect_ratio_def trunc_int_def)

lemma MAX_FIREFLY_PIXEL_RADIUS_eq: "MAX_FIREFLY_PIXEL_RADIUS = 25"
  by (simp add: MAX_FIREFLY_PIXEL_RADIUS_def trunc_int_def FIREFLY_RADIUS_def
      MAX_PULSE_FACTOR_def res_x_def)

lemma decay_cells:
  "cells (decay f) p =
     (if in_shape (res_x, res_y) p then vscale3 TRAIL_FADE_SPEED (cells f p) else cells f p)"
  unfolding decay_def
  by (simp add: fold_modify_cells[OF distinct_grouped] set_grouped)

lemma vadd3_assoc: "vadd3 (vadd3 a b) c = vadd3 a (vadd3 b c)"
  by (cases a, cases b, cases c) (simp add: vadd3_def)

lemma vadd3_zero: "vadd3 (0, 0, 0) a = a" "vadd3 a (0, 0, 0) = a"
  by (cases a; simp add: vadd3_def)+

text \<open>
  Every loop of the splat pass adds to each pixel an amount that does not depend on what
  the buffer holds.
\<close>

lemma splat_body_adds:
  "\<exists>A. \<forall>g p. cells (splat_body t ps c off offs g) p = vadd3 (cells g p) (A p)"
proof (cases "splat_amount t ps c off offs")
  case None
  then show ?thesis
    by (intro exI[of _ "\<lambda>_. (0, 0, 0)"]) (simp add: splat_body_def vadd3_zero)
next
  case (Some qa)
  obtain q a where qa: "qa = (q, a)" by (cases qa)
  show ?thesis
    by (intro exI[of _ "\<lambda>p. if p = q then a else (0, 0, 0)"])
       (simp add: splat_body_def Some qa field_write_def vadd3_zero)
qed

lemma fold_adds:
  assumes "\<And>x. x \<in> set xs \<Longrightarrow> \<exists>A. \<forall>g p. cells (G x g) p = vadd3 (cells g p) (A p)"
  shows "\<exists>A. \<forall>g p. cells (fold G xs g) p = vadd3 (cells g p) (A p)"
  using assms
proof (induction xs)
  case Nil
  show ?case
    by (intro exI[of _ "\<lambda>_. (0, 0, 0)"]) (simp add: vadd3_zero)
next
  case (Cons x xs)
  from Cons.prems[of x] obtain A where A: "\<And>g p. cells (G x g) p = vadd3 (cells g p) (A p)"
    by auto
  from Cons.IH Cons.prems obtain B where
    B: "\<And>g p. cells (fold G xs g) p = vadd3 (cells g p) (B p)"
    by auto
  show ?case
    by (intro exI[of _ "\<lambda>p. vadd3 (A p) (B p)"]) (simp add: A B vadd3_assoc)
qed

lemma splat_firefly_adds:
  "\<exists>A. \<forall>g p. cells (splat_firefly t ps c off g) p = vadd3 (cells g p) (A p)"
  unfolding splat_firefly_def
  by (rule fold_adds, rule fold_adds, rule splat_body_adds)

lemma splat_all_adds:
  "\<exists>A. \<forall>g p. cells (splat_all t s g) p = vadd3 (cells g p) (A p)"
  unfolding splat_all_def
  by (rule fold_adds, rule splat_firefly_adds)

lemma fold_keeps:
  assumes "\<And>x g. x \<in> set xs \<Longrightarrow> cells (G x g) p = cells g p"
  shows "cells (fold G xs g) p = cells g p"
  using assms by (induction xs arbitrary: g) simp_all

lemma splat_body_keeps:
  "(\<And>a. splat_amount t ps c off offs = Some (p, a) \<Longrightarrow> a = (0, 0, 0)) \<Longrightarrow>
     cells (splat_body t ps c off offs g) p = cells g p"
  by (auto simp: splat_body_def field_write_def vadd3_zero split: option.splits)

lemma splat_amount_pixel:
  "splat_amount t ps c off offs = Some (q, a) \<Longrightarrow> q = splat_pixel ps offs"
  by (auto simp: splat_amount_def Let_def split: if_splits)

text \<open>
  Claim C4. For every pixel of the frame buffer, the frame ends with the previous value
  multiplied by the decay factor plus what the splat pass adds, and what it adds is what
  it would add to a black buffer: the decay is applied before, and only to, the previous
  value. A pixel to which no particle adds anything (or only zero) ends the frame equal
  to the previous value times the decay factor exactly.
\<close>

theorem decay_then_splat:
  assumes "in_shape (res_x, res_y) p"
  shows "cells (render_fireflies t s f) p =
           vadd3 (vscale3 TRAIL_FADE_SPEED (cells f p))
                 (cells (splat_all t s (f\<lparr>cells := (\<lambda>_. (0, 0, 0))\<rparr>)) p) \<and>
         ((\<forall>i < NUM_FIREFLIES. \<forall>xo \<in> set offsets. \<forall>yo \<in> set offsets. \<forall>a.
             splat_amount t (firefly_pos s ! i) (firefly_color s ! i) (firefly_offset s ! i) (xo, yo)
               = Some (p, a) \<longrightarrow> a = (0, 0, 0)) \<longrightarrow>
          cells (render_fireflies t s f) p = vscale3 TRAIL_FADE_SPEED (cells f p))"
proof -
  from splat_all_adds[of t s] obtain A where
    A: "\<And>g p. cells (splat_all t s g) p = vadd3 (cells g p) (A p)" by blast
  have "cells (splat_all t s (f\<lparr>cells := (\<lambda>_. (0, 0, 0))\<rparr>)) p = A p"
    by (simp add: A vadd3_zero)
  then have 1: "cells (render_fireflies t s f) p =
           vadd3 (vscale3 TRAIL_FADE_SPEED (cells f p))
                 (cells (splat_all t s (f\<lparr>cells := (\<lambda>_. (0, 0, 0))\<rparr>)) p)"
    using assms by (simp add: render_fireflies_def A decay_cells)
  have 2: "cells (render_fireflies t s f) p = vscale3 TRAIL_FADE_SPEED (cells f p)"
    if h: "\<forall>i < NUM_FIREFLIES. \<forall>xo \<in> set offsets. \<forall>yo \<in> set offsets. \<forall>a.
             splat_amount t (firefly_pos s ! i) (firefly_color s ! i) (firefly_offset s ! i) (xo, yo)
               = Some (p, a) \<longrightarrow> a = (0, 0, 0)"
  proof -
    have "cells (splat_all t s (decay f)) p = cells (decay f) p"
      unfolding splat_all_def splat_firefly_def
      by (intro fold_keeps splat_body_keeps) (use h in auto)
    then show ?thesis using assms by (simp add: render_fireflies_def decay_cells)
  qed
  from 1 2 show ?thesis by blast
qed

theorem decay_then_splat_witness:
  "in_shape (res_x, res_y) (0, 0) \<and>
   cells (render_fireflies 0 demo_fireflies demo_pixels) (0, 0) = (0.95, 0.95, 0.95)"
proof -
  have s: "in_shape (res_x, res_y) (0, 0)"
    by (simp add: in_shape_def res_x_def res_y_eq)
  have "splat_amount 0 (firefly_pos demo_fireflies ! i) (firefly_color demo_fireflies ! i)
          (firefly_offset demo_fireflies ! i) (xo, yo) \<noteq> Some ((0, 0), a)"
    if "i < NUM_FIREFLIES" "xo \<in> set offsets" for i xo yo a
  proof
    assume "splat_amount 0 (firefly_pos demo_fireflies ! i) (firefly_color demo_fireflies ! i)
          (firefly_offset demo_fireflies ! i) (xo, yo) = Some ((0, 0), a)"
    from splat_amount_pixel[OF this] that show False
      by (simp add: demo_fireflies_def NUM_FIREFLIES_def splat_pixel_def trunc_int_def res_x_def
          offsets_def MAX_FIREFLY_PIXEL_RADIUS_eq)
  qed
  with decay_then_splat[OF s, of 0 demo_fireflies demo_pixels]
  have "cells (render_fireflies 0 demo_fireflies demo_pixels) (0, 0) =
          vscale3 TRAIL_FADE_SPEED (cells demo_pixels (0, 0))"
    by blast
  with s show ?thesis
    by (simp add: demo_pixels_def vscale3_def TRAIL_FADE_SPEED_def)
qed

lemma pulse_factor_range: "0 \<le> pulse_factor t off \<and> pulse_factor t off \<le> 1"
proof -
  have "- 1 \<le> sin (t * PULSE_SPEED + off)" "sin (t * PULSE_SPEED + off) \<le> 1"
    by simp_all
  then show ?thesis unfolding pulse_factor_def by linarith
qed

lemma current_radius_pos: "0 < current_radius t off"
proof -
  have "current_radius t off = (1 + 2 * pulse_factor t off) / 250"
    by (simp add: current_radius_def mix_colors_def MIN_PULSE_FACTOR_def MAX_PULSE_FACTOR_def
        FIREFLY_RADIUS_def field_simps)
  moreover have "0 < 1 + 2 * pulse_factor t off"
    using pulse_factor_range[of t off] by linarith
  ultimately show ?thesis by simp
qed

lemma current_radius_0_0: "current_radius 0 0 = 0.008"
  by (simp add: current_radius_def pulse_factor_def mix_colors_def FIREFLY_RADIUS_def
      MIN_PULSE_FACTOR_def MAX_PULSE_FACTOR_def)

lemma smoothstep_low: "0 < e \<Longrightarrow> x \<le> 0 \<Longrightarrow> smoothstep 0 e x = 0"
  by (simp add: smoothstep_def clamp_def Let_def max_def min_def divide_nonpos_pos)

lemma smoothstep_high:
  assumes "0 < e" "e \<le> x"
  shows "smoothstep 0 e x = 1"
proof -
  have "1 \<le> x / e" using assms by simp
  then have "clamp (x / e) 0 1 = 1" by (simp add: clamp_def)
  then show ?thesis by (simp add: smoothstep_def)
qed

lemma splat_amount_eq:
  "splat_amount t ps c off offs =
     (if in_shape (res_x, res_y) (splat_pixel ps offs) \<and>
         vlength (vsub2 (pixel_uv (splat_pixel ps offs)) ps) < 2 * current_radius t off
      then Some (splat_pixel ps offs,
        vscale3 0.5
            (vscale3
               (1 - smoothstep 0 (current_radius t off * 0.5)
                      (vlength (vsub2 (pixel_uv (splat_pixel ps offs)) ps) - current_radius t off))
               (mix_colors3 c (1, 1, 1) (pulse_factor t off * 0.7))))
      else None)"
  by (simp add: splat_amount_def Let_def sdf_circle_def)

lemma splat_body_eq:
  "splat_body t ps c off offs f =
     (if in_shape (res_x, res_y) (splat_pixel ps offs) \<and>
         vlength (vsub2 (pixel_uv (splat_pixel ps offs)) ps) < 2 * current_radius t off
      then field_write f (splat_pixel ps offs)
        (vadd3 (cells f (splat_pixel ps offs))
          (vscale3 0.5
            (vscale3
               (1 - smoothstep 0 (current_radius t off * 0.5)
                      (vlength (vsub2 (pixel_uv (splat_pixel ps offs)) ps) - current_radius t off))
               (mix_colors3 c (1, 1, 1) (pulse_factor t off * 0.7)))))
      else f)"
  by (simp add: splat_body_def splat_amount_eq)

text \<open>
  Claim C6, as the code has it. For an offset of the bounding box, the loop body adds to
  the buffer exactly when the addressed pixel is on the screen and its distance from the
  particle's centre is strictly less than twice the current pulsing radius (the signed
  distance to the disc is less than the radius). Then the cell of that pixel becomes its
  previous value plus half the pulse-brightened colour times a falloff factor, and no
  other cell changes; otherwise the buffer is left as it was. The falloff factor is 1 up
  to the radius and 0 from one and a half radii on.
\<close>

theorem splat_condition:
  "((in_shape (res_x, res_y) (splat_pixel ps offs) \<and>
     vlength (vsub2 (pixel_uv (splat_pixel ps offs)) ps) < 2 * current_radius t off) \<longrightarrow>
      cells (splat_body t ps c off offs f) (splat_pixel ps offs) =
        vadd3 (cells f (splat_pixel ps offs))
          (vscale3 0.5
            (vscale3
               (1 - smoothstep 0 (current_radius t off * 0.5)
                      (vlength (vsub2 (pixel_uv (splat_pixel ps offs)) ps) - current_radius t off))
               (mix_colors3 c (1, 1, 1) (pulse_factor t off * 0.7)))) \<and>
      (\<forall>p. p \<noteq> splat_pixel ps offs \<longrightarrow> cells (splat_body t ps c off offs f) p = cells f p) \<and>
      shape (splat_body t ps c off offs f) = shape f) \<and>
   (\<not> (in_shape (res_x, res_y) (splat_pixel ps offs) \<and>
        vlength (vsub2 (pixel_uv (splat_pixel ps offs)) ps) < 2 * current_radius t off) \<longrightarrow>
      splat_body t ps c off offs f = f) \<and>
   (vlength (vsub2 (pixel_uv (splat_pixel ps offs)) ps) \<le> current_radius t off \<longrightarrow>
      1 - smoothstep 0 (current_radius t off * 0.5)
            (vlength (vsub2 (pixel_uv (splat_pixel ps offs)) ps) - current_radius t off) = 1) \<and>
   (1.5 * current_radius t off \<le> vlength (vsub2 (pixel_uv (splat_pixel ps offs)) ps) \<longrightarrow>
      1 - smoothstep 0 (current_radius t off * 0.5)
            (vlength (vsub2 (pixel_uv (splat_pixel ps offs)) ps) - current_radius t off) = 0)"
proof -
  note r = current_radius_pos[of t off]
  have 1: "(in_shape (res_x, res_y) (splat_pixel ps offs) \<and>
     vlength (vsub2 (pixel_uv (splat_pixel ps offs)) ps) < 2 * current_radius t off) \<longrightarrow>
      cells (splat_body t ps c off offs f) (splat_pixel ps offs) =
        vadd3 (cells f (splat_pixel ps offs))
          (vscale3 0.5
            (vscale3
               (1 - smoothstep 0 (current_radius t off * 0.5)
                      (vlength (vsub2 (pixel_uv (splat_pixel ps offs)) ps) - current_radius t off))
               (mix_colors3 c (1, 1, 1) (pulse_factor t off * 0.7)))) \<and>
      (\<forall>p. p \<noteq> splat_pixel ps offs \<longrightarrow> cells (splat_body t ps c off offs f) p = cells f p) \<and>
      shape (splat_body t ps c off offs f) = shape f"
    by (simp add: splat_body_eq field_write_def)
  have 2: "\<not> (in_shape (res_x, res_y) (splat_pixel ps offs) \<and>
        vlength (vsub2 (pixel_uv (splat_pixel ps offs)) ps) < 2 * current_radius t off) \<longrightarrow>
      splat_body t ps c off offs f = f"
    by (simp add: splat_body_eq)
  have 3: "vlength (vsub2 (pixel_uv (splat_pixel ps offs)) ps) \<le> current_radius t off \<longrightarrow>
      1 - smoothstep 0 (current_radius t off * 0.5)
            (vlength (vsub2 (pixel_uv (splat_pixel ps offs)) ps) - current_radius t off) = 1"
    using r by (simp add: smoothstep_low)
  have 4: "1.5 * current_radius t off \<le> vlength (vsub2 (pixel_uv (splat_pixel ps offs)) ps) \<longrightarrow>
      1 - smoothstep 0 (current_radius t off * 0.5)
            (vlength (vsub2 (pixel_uv (splat_pixel ps offs)) ps) - current_radius t off) = 0"
    using r by (simp add: smoothstep_high)
  from 1 2 3 4 show ?thesis by blast
qed

theorem splat_condition_witness:
  "splat_pixel (0.5, 0.5) (0, 0) = (640, 640) \<and>
   vlength (vsub2 (pixel_uv (640, 640)) (0.5, 0.5)) \<le> current_radius 0 0 \<and>
   cells demo_pixels (640, 640) = (1, 1, 1) \<and>
   cells (splat_body 0 (0.5, 0.5) (0.5, 0.5, 0.5) 0 (0, 0) demo_pixels) (640, 640) = (1.3375, 1.3375, 1.3375) \<and>
   cells (splat_body 0 (0.5, 0.5) (0.5, 0.5, 0.5) 0 (0, 0) demo_pixels) (641, 640) = (1, 1, 1)"
proof -
  have q: "splat_pixel (0.5, 0.5) (0, 0) = (640, 640)"
    by (simp add: splat_pixel_def trunc_int_def res_x_def res_y_eq)
  have d: "vlength (vsub2 (pixel_uv (640, 640)) (0.5, 0.5)) = 0"
    by (simp add: pixel_uv_def vsub2_def vlength_def res_x_def res_y_eq)
  have on: "in_shape (res_x, res_y) (640, 640)"
    by (simp add: in_shape_def res_x_def res_y_eq)
  have r: "0 < current_radius 0 0" by (simp add: current_radius_0_0)
  have c: "in_shape (res_x, res_y) (640, 640) \<and>
           vlength (vsub2 (pixel_uv (640, 640)) (0.5, 0.5)) < 2 * current_radius 0 0"
    using on d r by simp
  have le: "vlength (vsub2 (pixel_uv (640, 640)) (0.5, 0.5)) \<le> current_radius 0 0"
    using d r by simp
  from splat_condition[of "(0.5, 0.5)" "(0, 0)" 0 0 "(0.5, 0.5, 0.5)" demo_pixels] c le
  have new: "cells (splat_body 0 (0.5, 0.5) (0.5, 0.5, 0.5) 0 (0, 0) demo_pixels) (640, 640) =
        vadd3 (cells demo_pixels (640, 640))
          (vscale3 0.5
            (vscale3
               (1 - smoothstep 0 (current_radius 0 0 * 0.5)
                      (vlength (vsub2 (pixel_uv (640, 640)) (0.5, 0.5)) - current_radius 0 0))
               (mix_colors3 (0.5, 0.5, 0.5) (1, 1, 1) (pulse_factor 0 0 * 0.7))))"
    and rest: "\<forall>p. p \<noteq> (640, 640) \<longrightarrow>
        cells (splat_body 0 (0.5, 0.5) (0.5, 0.5, 0.5) 0 (0, 0) demo_pixels) p = cells demo_pixels p"
    and one: "1 - smoothstep 0 (current_radius 0 0 * 0.5)
                   (vlength (vsub2 (pixel_uv (640, 640)) (0.5, 0.5)) - current_radius 0 0) = 1"
    unfolding q by blast+
  have a: "cells (splat_body 0 (0.5, 0.5) (0.5, 0.5, 0.5) 0 (0, 0) demo_pixels) (640, 640) = (1.3375, 1.3375, 1.3375)"
    unfolding new one
    by (simp add: demo_pixels_def vadd3_def vscale3_def mix_colors3_def pulse_factor_def)
  from rest have b: "cells (splat_body 0 (0.5, 0.5) (0.5, 0.5, 0.5) 0 (0, 0) demo_pixels) (641, 640) = (1, 1, 1)"
    by (simp add: demo_pixels_def)
  have p: "cells demo_pixels (640, 640) = (1, 1, 1)" by (simp add: demo_pixels_def)
  from q le p a b show ?thesis by blast
qed

text \<open>
  A pixel of the bounding box outside the pulsing radius that is blended: with the radius
  at 0.008, the pixel 13 columns to the right of the centre lies 13/1280 from it, and the
  loop body raises its cell from 1 to 1 + 12500271/83886080 on every channel for a
  particle of colour (0.5, 0.5, 0.5).
\<close>

theorem splat_outside_radius:
  "13 \<in> set offsets \<and> 0 \<in> set offsets \<and>
   splat_pixel (0.5, 0.5) (13, 0) = (653, 640) \<and>
   \<not> vlength (vsub2 (pixel_uv (653, 640)) (0.5, 0.5)) < current_radius 0 0 \<and>
   cells demo_pixels (653, 640) = (1, 1, 1) \<and>
   cells (splat_body 0 (0.5, 0.5) (0.5, 0.5, 0.5) 0 (13, 0) demo_pixels) (653, 640) =
     (96386351 / 83886080, 96386351 / 83886080, 96386351 / 83886080)"
  by (simp add: splat_body_def splat_amount_def Let_def splat_pixel_def pixel_uv_def trunc_int_def
      res_x_def res_y_eq in_shape_def sdf_circle_def vsub2_def vlength_x current_radius_0_0
      smoothstep_def clamp_def mix_colors3_def vscale3_def vadd3_def pulse_factor_def offsets_def
      MAX_FIREFLY_PIXEL_RADIUS_eq demo_pixels_def field_write_def)

end
